theory Spec2Isabelle
  imports Complex_Main
begin

section \<open>StockShield simulation graph generator\<close>

text \<open>
  A shallow embedding of \<^verbatim>\<open>backend/generate_graphs.py\<close>. The script reads one JSON
  document of simulation results and renders five charts with matplotlib.

  Conventions of the embedding:
  \<^item> the parsed JSON document is a record holding every field the script reads; a
    document lacking one of them (a Python \<^verbatim>\<open>KeyError\<close>) is outside the model;
  \<^item> timestamps are \<open>int\<close> (Python's unbounded integers). A trade volume is a Python
    number, an unbounded integer or an IEEE-754 double, and sums of volumes round as
    Python's do. Every other number is an exact \<open>real\<close>, and the rounding of the
    operations on those is not modelled;
  \<^item> every exception the script can raise on such a document is a value of \<open>py_error\<close>,
    and a function that can raise returns \<open>py_error + 'a\<close>;
  \<^item> a matplotlib figure is the data handed to the drawing calls, an element of
    \<open>figure\<close>; the file system and the console are fields of the record \<open>world\<close>.
\<close>

subsection \<open>Exceptions\<close>

text \<open>
  The exceptions the script can raise on a document of the model. \<open>DatetimeRangeError\<close>
  stands for what \<^verbatim>\<open>ts / 1000\<close> and \<^verbatim>\<open>datetime.fromtimestamp\<close> raise on a timestamp
  they cannot represent (\<^verbatim>\<open>OverflowError\<close>, \<^verbatim>\<open>ValueError\<close> or \<^verbatim>\<open>OSError\<close>, depending on
  the magnitude); nothing in the script catches any of them.
\<close>

datatype py_error =
    IndexError
  | ZeroDivisionError
  | ValueError
  | OverflowError
  | DatetimeRangeError
  | FileNotFoundError
  | JSONDecodeError
  | IsADirectoryError
  | FileExistsError

text \<open>A list comprehension whose element expression can raise stops at the first raise.\<close>

fun try_map :: "('a \<Rightarrow> py_error + 'b) \<Rightarrow> 'a list \<Rightarrow> py_error + 'b list" where
  "try_map f [] = Inr []"
| "try_map f (x # xs) =
     (case f x of
        Inl e \<Rightarrow> Inl e
      | Inr y \<Rightarrow> (case try_map f xs of Inl e \<Rightarrow> Inl e | Inr ys \<Rightarrow> Inr (y # ys)))"

subsection \<open>Python numbers\<close>

text \<open>
  A JSON number without fraction or exponent is loaded as a Python \<^verbatim>\<open>int\<close>, any other as a
  \<^verbatim>\<open>float\<close>, an IEEE-754 double. The value of an arithmetic operation on doubles is the
  exact result rounded to the nearest double, a tie going to the even significand.

  \<open>round_double x\<close> is that rounding where it is finite: with \<open>e\<close> the binary exponent of
  \<open>x\<close>, the doubles around \<open>x\<close> are the multiples of \<open>2 powi (e - 52)\<close> (53 significant
  bits), and those of \<open>2 powi (- 1074)\<close> in the subnormal range.
\<close>

definition round_half_even :: "real \<Rightarrow> int" where
  "round_half_even x =
     (let f = \<lfloor>x\<rfloor> in
      if x - of_int f < 1 / 2 then f
      else if 1 / 2 < x - of_int f then f + 1
      else if even f then f else f + 1)"

definition round_double :: "real \<Rightarrow> real" where
  "round_double x =
     (if x = 0 then 0
      else (let q = max (\<lfloor>log 2 \<bar>x\<bar>\<rfloor> - 52) (- 1074)
            in of_int (round_half_even (x / 2 powi q)) * 2 powi q))"

text \<open>
  The finite doubles are the reals that rounding leaves alone, below \<open>2 ^ 1024\<close> in
  magnitude. The two zeros of IEEE-754, equal in every comparison, are one value here.
\<close>

typedef finite_double = "{r :: real. round_double r = r \<and> \<bar>r\<bar> < 2 ^ 1024}"
  by (rule exI [of _ 0]) (simp add: round_double_def)

datatype double = Finite finite_double | PosInf | NegInf | NaN

text \<open>
  The double nearest to a real: what a float literal is loaded as, and what an operation
  on doubles returns for its exact result. A result that rounds to \<open>2 ^ 1024\<close> or beyond
  is an infinity.
\<close>

definition nearest_double :: "real \<Rightarrow> double" where
  "nearest_double r =
     (let d = round_double r in
      if 2 ^ 1024 \<le> d then PosInf
      else if d \<le> - (2 ^ 1024) then NegInf
      else Finite (Abs_finite_double d))"

text \<open>Addition of doubles.\<close>

fun float_add :: "double \<Rightarrow> double \<Rightarrow> double" where
  "float_add (Finite x) (Finite y) =
     nearest_double (Rep_finite_double x + Rep_finite_double y)"
| "float_add NaN y = NaN"
| "float_add x NaN = NaN"
| "float_add PosInf NegInf = NaN"
| "float_add NegInf PosInf = NaN"
| "float_add PosInf y = PosInf"
| "float_add NegInf y = NegInf"
| "float_add x PosInf = PosInf"
| "float_add x NegInf = NegInf"

text \<open>
  The conversion of an \<^verbatim>\<open>int\<close> operand to \<^verbatim>\<open>float\<close>; it raises \<^verbatim>\<open>OverflowError\<close> for an
  integer too large for a double.
\<close>

definition int_to_float :: "int \<Rightarrow> py_error + double" where
  "int_to_float i =
     (case nearest_double (real_of_int i) of
        Finite d \<Rightarrow> Inr (Finite d)
      | _ \<Rightarrow> Inl OverflowError)"

datatype number = PyInt int | PyFloat double

text \<open>
  Python's \<^verbatim>\<open>+\<close> on numbers: exact on two integers; with a float operand the integer
  operand is converted first and the doubles are added.
\<close>

fun py_add :: "number \<Rightarrow> number \<Rightarrow> py_error + number" where
  "py_add (PyInt a) (PyInt b) = Inr (PyInt (a + b))"
| "py_add (PyInt a) (PyFloat y) =
     (case int_to_float a of Inl e \<Rightarrow> Inl e | Inr x \<Rightarrow> Inr (PyFloat (float_add x y)))"
| "py_add (PyFloat x) (PyInt b) =
     (case int_to_float b of Inl e \<Rightarrow> Inl e | Inr y \<Rightarrow> Inr (PyFloat (float_add x y)))"
| "py_add (PyFloat x) (PyFloat y) = Inr (PyFloat (float_add x y))"

text \<open>
  The builtin \<^verbatim>\<open>sum\<close>: it starts from the integer 0 and adds the items from left to
  right, one \<^verbatim>\<open>+\<close> for each (the summation of CPython up to 3.11; from 3.12 on the
  rounding errors of floats are compensated).
\<close>

fun sum_from :: "number \<Rightarrow> number list \<Rightarrow> py_error + number" where
  "sum_from acc [] = Inr acc"
| "sum_from acc (x # xs) =
     (case py_add acc x of Inl e \<Rightarrow> Inl e | Inr acc' \<Rightarrow> sum_from acc' xs)"

definition py_sum :: "number list \<Rightarrow> py_error + number" where
  "py_sum xs = sum_from (PyInt 0) xs"

text \<open>The Python expression \<^verbatim>\<open>a + b\<close> on the results of two computations that can raise.\<close>

definition add_results :: "py_error + number \<Rightarrow> py_error + number \<Rightarrow> py_error + number" where
  "add_results a b =
     (case a of
        Inl e \<Rightarrow> Inl e
      | Inr x \<Rightarrow> (case b of Inl e \<Rightarrow> Inl e | Inr y \<Rightarrow> py_add x y))"

text \<open>The real value of a number; an infinity and NaN have none.\<close>

fun number_value :: "number \<Rightarrow> real option" where
  "number_value (PyInt i) = Some (real_of_int i)"
| "number_value (PyFloat (Finite d)) = Some (Rep_finite_double d)"
| "number_value (PyFloat x) = None"

text \<open>The integer a Python \<^verbatim>\<open>int\<close> holds.\<close>

fun is_py_int :: "number \<Rightarrow> bool" where
  "is_py_int (PyInt i) = True"
| "is_py_int (PyFloat x) = False"

fun int_of :: "number \<Rightarrow> int" where
  "int_of (PyInt i) = i"
| "int_of (PyFloat x) = 0"

subsection \<open>The simulation document\<close>

record config =
  simulationDays :: real
  initialLPBalance :: real

record price_sample =
  timestamp :: int
  price :: real
  regime :: string

record vpin_sample =
  vpin_timestamp :: int
  vpin :: real

record trade =
  volume :: number
  isInformed :: bool
  isBuy :: bool

text \<open>
  Both scenario variants carry the five fields of \<open>scenario\<close>; the with-protection variant
  extends them by \<open>gapAuctionGains\<close>. Functions reading a without-protection record
  take any extension of \<open>scenario\<close>, as a Python dict may hold more keys than are read.
\<close>

record scenario =
  feesEarned :: real
  impermanentLoss :: real
  adverseSelectionLoss :: real
  gapLoss :: real
  netPnL :: real

record protected_scenario = scenario +
  gapAuctionGains :: real

record comparison =
  feeImprovement :: real
  adverseSelectionReduction :: real
  gapProtectionValue :: real

record document =
  config :: config
  priceData :: "price_sample list"
  vpinData :: "vpin_sample list"
  tradeData :: "trade list"
  withoutProtection :: protected_scenario
  withProtection :: protected_scenario
  comparison :: comparison

subsection \<open>Time normalizer\<close>

text \<open>
  \<^verbatim>\<open>datetime.fromtimestamp\<close> builds the local calendar time of an instant given in seconds
  since the epoch. A \<^verbatim>\<open>datetime\<close> holds years 1 to 9999 only: the instant must lie, in
  local time, between 0001-01-01 00:00:00 (\<open>- 62135596800\<close> seconds) and 10000-01-01
  00:00:00 (\<open>253402300800\<close> seconds), the latter excluded. The offset of local time from
  UTC, in seconds, belongs to the process environment and is a parameter here. The
  result is the local time in seconds, the point matplotlib places on the time axis.
\<close>

definition datetime_min_seconds :: real where
  "datetime_min_seconds = - 62135596800"

definition datetime_max_seconds :: real where
  "datetime_max_seconds = 253402300800"

definition fromtimestamp :: "int \<Rightarrow> real \<Rightarrow> py_error + real" where
  "fromtimestamp utcoffset t =
     (if datetime_min_seconds \<le> t + real_of_int utcoffset
         \<and> t + real_of_int utcoffset < datetime_max_seconds
      then Inr (t + real_of_int utcoffset)
      else Inl DatetimeRangeError)"

text \<open>Lines 26--28.\<close>

definition timestamp_to_datetime :: "int \<Rightarrow> int \<Rightarrow> py_error + real" where
  "timestamp_to_datetime utcoffset ts = fromtimestamp utcoffset (real_of_int ts / 1000)"

subsection \<open>Price chart: shading the background by regime\<close>

text \<open>Lines 40--47 and the lookup \<^verbatim>\<open>regime_colors.get(prev_regime, '#cccccc')\<close>.\<close>

definition regime_colors :: "(string \<times> string) list" where
  "regime_colors =
     [(''CORE_SESSION'', ''#27ae60''),
      (''SOFT_OPEN'', ''#f39c12''),
      (''PRE_MARKET'', ''#3498db''),
      (''AFTER_HOURS'', ''#9b59b6''),
      (''OVERNIGHT'', ''#34495e''),
      (''WEEKEND'', ''#95a5a6'')]"

definition regime_color :: "string \<Rightarrow> string" where
  "regime_color r = (case map_of regime_colors r of Some c \<Rightarrow> c | None \<Rightarrow> ''#cccccc'')"

text \<open>
  One call \<^verbatim>\<open>ax.axvspan(timestamps[a], timestamps[b], color=c, label=l)\<close>, recorded by the
  two indices into \<^verbatim>\<open>timestamps\<close>.
\<close>

record axvspan =
  span_from :: int
  span_to :: int
  span_color :: string
  span_label :: "string option"

text \<open>
  Lines 53--62. The loop state is \<^verbatim>\<open>prev_regime\<close> (\<open>None\<close> before the first sample),
  \<^verbatim>\<open>start_idx\<close> and the spans drawn so far. A span is drawn only inside the loop body,
  when the label changes and a previous label exists; nothing follows the loop. There
  \<^verbatim>\<open>i\<close> is at least 1, so both indices are within \<^verbatim>\<open>timestamps\<close>.
\<close>

record regime_loop =
  prev_regime :: "string option"
  start_idx :: int
  spans :: "axvspan list"

definition regime_step :: "nat \<Rightarrow> regime_loop \<Rightarrow> nat \<times> string \<Rightarrow> regime_loop" where
  "regime_step len s ir =
     (case ir of (i, label) \<Rightarrow>
        if Some label \<noteq> prev_regime s then
          \<lparr>prev_regime = Some label,
           start_idx = int i,
           spans =
             (case prev_regime s of
                None \<Rightarrow> spans s
              | Some prev \<Rightarrow>
                  spans s @
                  [\<lparr>span_from = start_idx s,
                    span_to = int i - 1,
                    span_color = regime_color prev,
                    span_label = (if int i = int len - 1 then Some prev else None)\<rparr>])\<rparr>
        else s)"

definition regime_spans :: "string list \<Rightarrow> axvspan list" where
  "regime_spans regimes =
     spans (foldl (regime_step (length regimes))
              \<lparr>prev_regime = None, start_idx = 0, spans = []\<rparr>
              (enumerate 0 regimes))"

subsection \<open>VPIN chart: highlighting the high periods\<close>

text \<open>
  Lines 111--114. One iteration of the loop over \<^verbatim>\<open>range(len(timestamps))\<close>; the list
  \<^verbatim>\<open>timestamps\<close> is as long as \<^verbatim>\<open>vpins\<close>. The band is recorded by its two indices.
\<close>

definition vpin_step :: "real list \<Rightarrow> (int \<times> int) list \<Rightarrow> nat \<Rightarrow> (int \<times> int) list" where
  "vpin_step vpins bands i =
     (if vpins ! i > 0.5
      then bands @ [(max 0 (int i - 1), min (int (length vpins) - 1) (int i + 1))]
      else bands)"

definition high_vpin_spans :: "real list \<Rightarrow> (int \<times> int) list" where
  "high_vpin_spans vpins = foldl (vpin_step vpins) [] [0..<length vpins]"

subsection \<open>Comparison chart: the bar vectors\<close>

text \<open>Lines 141--147: the list \<^verbatim>\<open>without_vals\<close>, whose last entry is the literal 0.\<close>

definition without_vals :: "'a scenario_scheme \<Rightarrow> real list" where
  "without_vals without =
     [feesEarned without,
      - impermanentLoss without,
      - adverseSelectionLoss without,
      - gapLoss without,
      0]"

text \<open>Lines 148--154: the list \<^verbatim>\<open>with_vals\<close>.\<close>

definition with_vals :: "protected_scenario \<Rightarrow> real list" where
  "with_vals with_prot =
     [feesEarned with_prot,
      - impermanentLoss with_prot,
      - adverseSelectionLoss with_prot,
      - gapLoss with_prot,
      gapAuctionGains with_prot]"

subsection \<open>Trade distribution chart: the volume sums\<close>

text \<open>
  Lines 265, 266, 279 and 280: \<^verbatim>\<open>sum(t['volume'] for t in trades if c(t))\<close> for the four
  conditions.
\<close>

definition informed_vol :: "trade list \<Rightarrow> py_error + number" where
  "informed_vol trades = py_sum (map volume (filter (\<lambda>t. isInformed t) trades))"

definition retail_vol :: "trade list \<Rightarrow> py_error + number" where
  "retail_vol trades = py_sum (map volume (filter (\<lambda>t. \<not> isInformed t) trades))"

definition buy_vol :: "trade list \<Rightarrow> py_error + number" where
  "buy_vol trades = py_sum (map volume (filter (\<lambda>t. isBuy t) trades))"

definition sell_vol :: "trade list \<Rightarrow> py_error + number" where
  "sell_vol trades = py_sum (map volume (filter (\<lambda>t. \<not> isBuy t) trades))"

subsection \<open>Comparison chart: the improvement annotation\<close>

text \<open>Line 212.\<close>

definition improvement :: "document \<Rightarrow> real" where
  "improvement data = netPnL (withProtection data) - netPnL (withoutProtection data)"

text \<open>
  Line 213. Python's \<^verbatim>\<open>/\<close> raises \<^verbatim>\<open>ZeroDivisionError\<close> on a zero divisor, integer or
  float.
\<close>

definition improvement_pct :: "document \<Rightarrow> py_error + real" where
  "improvement_pct data =
     (if initialLPBalance (config data) = 0 then Inl ZeroDivisionError
      else Inr (improvement data / initialLPBalance (config data) * 100))"

subsection \<open>Protection value pie: the clipped sizes\<close>

text \<open>Lines 231--235, and line 239 (the variable \<^verbatim>\<open>total\<close>).\<close>

definition sizes :: "comparison \<Rightarrow> real list" where
  "sizes cmp =
     [max 0 (feeImprovement cmp),
      max 0 (adverseSelectionReduction cmp),
      max 0 (gapProtectionValue cmp)]"

definition total_value :: "comparison \<Rightarrow> real" where
  "total_value cmp = sum_list (sizes cmp)"

subsection \<open>Figures\<close>

text \<open>
  What each chart is drawn from: the regime spans and the initial price; the VPIN bands;
  the two bar vectors, the two net values, the improvement and its percentage; the
  wedges of the protection pie (\<open>None\<close> when \<^verbatim>\<open>ax.pie\<close> is not called) and the total
  shown in its title; the wedges of the two trade pies.
\<close>

datatype figure =
    PriceChart "axvspan list" real
  | VpinChart "(int \<times> int) list"
  | ComparisonChart "real list" "real list" "real list" real real
  | ProtectionValuePie "real list option" real
  | TradeDistribution "real list" "real list"

text \<open>
  \<^verbatim>\<open>ax.pie(x)\<close> of matplotlib: a negative wedge size is rejected with \<^verbatim>\<open>ValueError\<close>, and
  the sizes are divided by their sum, so that a zero sum leaves no wedge that can be
  drawn (a \<^verbatim>\<open>ValueError\<close> on the resulting NaN). Otherwise the wedges are those of \<open>x\<close>.
\<close>

definition pie :: "real list \<Rightarrow> py_error + real list" where
  "pie x =
     (if list_ex (\<lambda>v. v < 0) x then Inl ValueError
      else if sum_list x = 0 then Inl ValueError
      else Inr x)"

text \<open>
  The sizes given to \<^verbatim>\<open>ax.pie\<close> as Python numbers become an array of floats, taken here
  by their values. An infinite or NaN size leaves NaN fractions, as a zero sum does.
\<close>

definition float_sizes :: "number list \<Rightarrow> py_error + real list" where
  "float_sizes x =
     try_map (\<lambda>v. case number_value v of None \<Rightarrow> Inl ValueError | Some r \<Rightarrow> Inr r) x"

subsection \<open>The file system and the console\<close>

datatype node =
    Directory
  | JsonFile document
  | OtherFile
  | PngFile figure

text \<open>
  One constructor for each \<^verbatim>\<open>print\<close> call of the script, with the values its f-string
  interpolates: lines 298, 299 (also 327 and 329), 306, 307, 311, 313, 320, the five
  \<^verbatim>\<open>Created:\<close> lines (90, 128, 222, 255, 294) and 328.
\<close>

datatype console =
    Banner
  | Rule
  | DataFileNotFound string
  | RunSimulationFirst
  | Loading string
  | ConfigLine real real
  | GeneratingCharts
  | Created string
  | AllChartsSaved string

record world =
  files :: "string \<rightharpoonup> node"
  stdout :: "console list"
  utcoffset :: int

definition py_print :: "console \<Rightarrow> world \<Rightarrow> world" where
  "py_print line w = w\<lparr>stdout := stdout w @ [line]\<rparr>"

text \<open>\<^verbatim>\<open>os.path.join\<close> of two components (posixpath).\<close>

definition path_join :: "string \<Rightarrow> string \<Rightarrow> string" where
  "path_join a b =
     (if b \<noteq> [] \<and> hd b = CHR ''/'' then b
      else if a = [] \<or> last a = CHR ''/'' then a @ b
      else a @ ''/'' @ b)"

definition path_exists :: "world \<Rightarrow> string \<Rightarrow> bool" where
  "path_exists w path = (files w path \<noteq> None)"

text \<open>
  \<^verbatim>\<open>plt.savefig(path)\<close> writes the current figure to the file; failures of the operating
  system while writing are not modelled.
\<close>

definition savefig :: "string \<Rightarrow> figure \<Rightarrow> world \<Rightarrow> world" where
  "savefig path fig w = w\<lparr>files := (files w)(path \<mapsto> PngFile fig)\<rparr>"

text \<open>\<^verbatim>\<open>os.makedirs(path, exist_ok=True)\<close>: an existing directory is accepted, a file is not.\<close>

definition makedirs :: "string \<Rightarrow> world \<Rightarrow> py_error + world" where
  "makedirs path w =
     (case files w path of
        None \<Rightarrow> Inr (w\<lparr>files := (files w)(path \<mapsto> Directory)\<rparr>)
      | Some Directory \<Rightarrow> Inr w
      | Some _ \<Rightarrow> Inl FileExistsError)"

text \<open>
  Lines 21--24: \<^verbatim>\<open>open\<close> and \<^verbatim>\<open>json.load\<close>. \<open>JSONDecodeError\<close> stands for any failure to
  decode a file that is not a JSON document.
\<close>

definition load_data :: "string \<Rightarrow> world \<Rightarrow> py_error + document" where
  "load_data filepath w =
     (case files w filepath of
        None \<Rightarrow> Inl FileNotFoundError
      | Some Directory \<Rightarrow> Inl IsADirectoryError
      | Some (JsonFile data) \<Rightarrow> Inr data
      | Some _ \<Rightarrow> Inl JSONDecodeError)"

subsection \<open>The five renderers\<close>

text \<open>Lines 30--90.\<close>

definition create_price_chart :: "document \<Rightarrow> string \<Rightarrow> world \<Rightarrow> py_error + world" where
  "create_price_chart data output_dir w =
     (let price_data = priceData data in
      case try_map (\<lambda>p. timestamp_to_datetime (utcoffset w) (timestamp p)) price_data of
        Inl e \<Rightarrow> Inl e
      | Inr timestamps \<Rightarrow>
          (let prices = map price price_data;
               regimes = map regime price_data;
               shaded = regime_spans regimes
           in case prices of
                [] \<Rightarrow> Inl IndexError
              | initial_price # _ \<Rightarrow>
                  Inr (py_print (Created ''price_chart.png'')
                        (savefig (path_join output_dir ''price_chart.png'')
                           (PriceChart shaded initial_price) w))))"

text \<open>Lines 92--128.\<close>

definition create_vpin_chart :: "document \<Rightarrow> string \<Rightarrow> world \<Rightarrow> py_error + world" where
  "create_vpin_chart data output_dir w =
     (let vpin_data = vpinData data in
      case try_map (\<lambda>p. timestamp_to_datetime (utcoffset w) (vpin_timestamp p)) vpin_data of
        Inl e \<Rightarrow> Inl e
      | Inr timestamps \<Rightarrow>
          (let vpins = map vpin vpin_data in
           Inr (py_print (Created ''vpin_chart.png'')
                 (savefig (path_join output_dir ''vpin_chart.png'')
                    (VpinChart (high_vpin_spans vpins)) w))))"

text \<open>Lines 130--222.\<close>

definition create_comparison_chart :: "document \<Rightarrow> string \<Rightarrow> world \<Rightarrow> py_error + world" where
  "create_comparison_chart data output_dir w =
     (let without = withoutProtection data;
          with_prot = withProtection data;
          values = [netPnL without, netPnL with_prot]
      in case improvement_pct data of
           Inl e \<Rightarrow> Inl e
         | Inr pct \<Rightarrow>
             Inr (py_print (Created ''comparison_chart.png'')
                   (savefig (path_join output_dir ''comparison_chart.png'')
                      (ComparisonChart (without_vals without) (with_vals with_prot) values
                         (improvement data) pct) w)))"

text \<open>
  Lines 241--247: the pie is drawn only under the guard \<^verbatim>\<open>if total > 0\<close>; \<open>None\<close> when it
  is not drawn.
\<close>

definition protection_wedges :: "comparison \<Rightarrow> py_error + real list option" where
  "protection_wedges cmp =
     (if total_value cmp > 0
      then (case pie (sizes cmp) of Inl e \<Rightarrow> Inl e | Inr wedges \<Rightarrow> Inr (Some wedges))
      else Inr None)"

text \<open>Lines 224--255.\<close>

definition create_protection_value_pie :: "document \<Rightarrow> string \<Rightarrow> world \<Rightarrow> py_error + world" where
  "create_protection_value_pie data output_dir w =
     (let cmp = comparison data in
      case protection_wedges cmp of
        Inl e \<Rightarrow> Inl e
      | Inr drawn \<Rightarrow>
          Inr (py_print (Created ''protection_value_pie.png'')
                (savefig (path_join output_dir ''protection_value_pie.png'')
                   (ProtectionValuePie drawn (total_value cmp)) w)))"

text \<open>Lines 257--294.\<close>

definition create_trade_distribution_chart ::
    "document \<Rightarrow> string \<Rightarrow> world \<Rightarrow> py_error + world" where
  "create_trade_distribution_chart data output_dir w =
     (let trades = tradeData data in
      case informed_vol trades of
        Inl e \<Rightarrow> Inl e
      | Inr informed \<Rightarrow>
      (case retail_vol trades of
        Inl e \<Rightarrow> Inl e
      | Inr retail \<Rightarrow>
      (case float_sizes [informed, retail] of
        Inl e \<Rightarrow> Inl e
      | Inr sizes1 \<Rightarrow>
      (case pie sizes1 of
        Inl e \<Rightarrow> Inl e
      | Inr by_type \<Rightarrow>
      (case buy_vol trades of
        Inl e \<Rightarrow> Inl e
      | Inr buy \<Rightarrow>
      (case sell_vol trades of
        Inl e \<Rightarrow> Inl e
      | Inr sell \<Rightarrow>
      (case float_sizes [buy, sell] of
        Inl e \<Rightarrow> Inl e
      | Inr sizes2 \<Rightarrow>
      (case pie sizes2 of
        Inl e \<Rightarrow> Inl e
      | Inr by_direction \<Rightarrow>
          Inr (py_print (Created ''trade_distribution.png'')
                (savefig (path_join output_dir ''trade_distribution.png'')
                   (TradeDistribution by_type by_direction) w))))))))))"

subsection \<open>The orchestrator\<close>

text \<open>An exception raised by one step ends the run: the steps after it are not taken.\<close>

definition and_then ::
    "py_error + world \<Rightarrow> (world \<Rightarrow> py_error + world) \<Rightarrow> py_error + world" where
  "and_then r f = (case r of Inl e \<Rightarrow> Inl e | Inr w \<Rightarrow> f w)"

text \<open>
  Lines 302, 303 and 316. \<open>script_dir\<close> is the directory of the script,
  \<^verbatim>\<open>os.path.dirname(os.path.abspath(__file__))\<close>; a join of three components is two
  joins of two.
\<close>

definition data_path :: "string \<Rightarrow> string" where
  "data_path script_dir =
     path_join (path_join script_dir ''simulation_results'') ''simulation_data.json''"

definition output_dir :: "string \<Rightarrow> string" where
  "output_dir script_dir = path_join (path_join script_dir ''simulation_results'') ''graphs''"

text \<open>Lines 296--329.\<close>

definition main :: "string \<Rightarrow> world \<Rightarrow> py_error + world" where
  "main script_dir w0 =
     (let w1 = py_print Rule (py_print Banner w0) in
      if \<not> path_exists w1 (data_path script_dir) then
        Inr (py_print RunSimulationFirst (py_print (DataFileNotFound (data_path script_dir)) w1))
      else
        (let w2 = py_print (Loading (data_path script_dir)) w1 in
         case load_data (data_path script_dir) w2 of
           Inl e \<Rightarrow> Inl e
         | Inr data \<Rightarrow>
             (let w3 = py_print (ConfigLine (simulationDays (config data))
                                   (initialLPBalance (config data))) w2
              in and_then (and_then (and_then (and_then (and_then (and_then
                   (makedirs (output_dir script_dir) w3)
                   (\<lambda>w. create_price_chart data (output_dir script_dir)
                          (py_print GeneratingCharts w)))
                   (create_vpin_chart data (output_dir script_dir)))
                   (create_comparison_chart data (output_dir script_dir)))
                   (create_protection_value_pie data (output_dir script_dir)))
                   (create_trade_distribution_chart data (output_dir script_dir)))
                   (\<lambda>w. Inr (py_print Rule (py_print (AllChartsSaved (output_dir script_dir))
                                (py_print Rule w)))))))"

subsection \<open>Reading the console\<close>

text \<open>
  The lines of the missing-file diagnostic (lines 306 and 307), and the lines reporting a
  chart as created.
\<close>

fun is_diagnostic :: "console \<Rightarrow> bool" where
  "is_diagnostic (DataFileNotFound path) = True"
| "is_diagnostic RunSimulationFirst = True"
| "is_diagnostic line = False"

fun is_created :: "console \<Rightarrow> bool" where
  "is_created (Created name) = True"
| "is_created line = False"

text \<open>What a run has printed when it returns; a run that raises is given no lines here.\<close>

definition printed :: "py_error + world \<Rightarrow> console list" where
  "printed r = (case r of Inl e \<Rightarrow> [] | Inr w \<Rightarrow> stdout w)"

subsection \<open>Counting label changes\<close>

text \<open>
  The number of positions of a label sequence whose label differs from the one before,
  in the words of the specification of the regime segmenter.
\<close>

fun label_changes :: "string list \<Rightarrow> nat" where
  "label_changes (a # b # rest) = (if a \<noteq> b then 1 else 0) + label_changes (b # rest)"
| "label_changes rest = 0"

subsection \<open>Example inputs\<close>

text \<open>
  A document with one price sample, one VPIN sample and one trade; its net results are
  those of the worked example of the improvement (\<open>-1000\<close> without, \<open>500\<close> with, a
  balance of \<open>100000\<close>), and its three protection values are all negative.
\<close>

definition minimal_document :: document where
  "minimal_document =
     \<lparr>config = \<lparr>simulationDays = 5, initialLPBalance = 100000\<rparr>,
      priceData = [\<lparr>timestamp = 1700000000000, price = 190, regime = ''CORE_SESSION''\<rparr>],
      vpinData = [\<lparr>vpin_timestamp = 1700000000000, vpin = 0.6\<rparr>],
      tradeData = [\<lparr>volume = PyInt 25000, isInformed = True, isBuy = False\<rparr>],
      withoutProtection =
        \<lparr>feesEarned = 300, impermanentLoss = 800, adverseSelectionLoss = 400, gapLoss = 100,
         netPnL = - 1000, gapAuctionGains = 7\<rparr>,
      withProtection =
        \<lparr>feesEarned = 900, impermanentLoss = 300, adverseSelectionLoss = 100, gapLoss = 50,
         netPnL = 500, gapAuctionGains = 50\<rparr>,
      comparison =
        \<lparr>feeImprovement = - 5, adverseSelectionReduction = - 1, gapProtectionValue = - 2\<rparr>\<rparr>"

text \<open>
  Three trades with the float volumes 0.1, 0.3 and 0.7, and two trades with integer
  volumes.
\<close>

definition float_trades :: "trade list" where
  "float_trades =
     [\<lparr>volume = PyFloat (nearest_double 0.1), isInformed = True, isBuy = True\<rparr>,
      \<lparr>volume = PyFloat (nearest_double 0.3), isInformed = True, isBuy = False\<rparr>,
      \<lparr>volume = PyFloat (nearest_double 0.7), isInformed = False, isBuy = True\<rparr>]"

definition int_trades :: "trade list" where
  "int_trades =
     [\<lparr>volume = PyInt 25000, isInformed = True, isBuy = False\<rparr>,
      \<lparr>volume = PyInt 100, isInformed = False, isBuy = True\<rparr>,
      \<lparr>volume = PyInt 7, isInformed = True, isBuy = True\<rparr>]"

text \<open>A file system holding nothing, and one holding only the document.\<close>

definition empty_world :: world where
  "empty_world = \<lparr>files = Map.empty, stdout = [], utcoffset = 0\<rparr>"

definition minimal_world :: world where
  "minimal_world =
     \<lparr>files = [''/app/simulation_results/simulation_data.json'' \<mapsto> JsonFile minimal_document],
      stdout = [],
      utcoffset = 0\<rparr>"

section \<open>Properties\<close>

subsection \<open>Helper lemmas\<close>

lemma sum_list_split:
  fixes f :: "'a \<Rightarrow> int"
  shows "sum_list (map f (filter P xs)) + sum_list (map f (filter (\<lambda>x. \<not> P x) xs))
           = sum_list (map f xs)"
  by (induction xs) simp_all

text \<open>Rounding to a double: evaluation at a known exponent.\<close>

lemma two_powr_int: "(2::real) powr real_of_int k = 2 powi k"
  by (rule powr_real_of_int') simp_all

lemma floor_log2_eq:
  assumes "2 powi e \<le> \<bar>x\<bar>" and "\<bar>x\<bar> < 2 powi (e + 1)"
  shows "\<lfloor>log 2 \<bar>x\<bar>\<rfloor> = e"
proof -
  have "(0::real) < 2 powi e" by simp
  with assms(1) have pos: "0 < \<bar>x\<bar>" by linarith
  have low: "2 powr (real_of_int e) \<le> \<bar>x\<bar>"
    using assms(1) by (simp only: two_powr_int)
  have "real_of_int e + 1 = real_of_int (e + 1)" by simp
  then have high: "\<bar>x\<bar> < 2 powr (real_of_int e + 1)"
    using assms(2) by (simp only: two_powr_int)
  from pos low high show ?thesis
    by (simp only: floor_log_eq_powr_iff [of "\<bar>x\<bar>" 2 e]) simp
qed

lemma floor_log2_bounds:
  assumes "x \<noteq> 0"
  shows "2 powi \<lfloor>log 2 \<bar>x\<bar>\<rfloor> \<le> \<bar>x\<bar> \<and> \<bar>x\<bar> < 2 powi (\<lfloor>log 2 \<bar>x\<bar>\<rfloor> + 1)"
proof -
  from assms have pos: "0 < \<bar>x\<bar>" by simp
  have "2 powr real_of_int \<lfloor>log 2 \<bar>x\<bar>\<rfloor> \<le> \<bar>x\<bar>
        \<and> \<bar>x\<bar> < 2 powr (real_of_int \<lfloor>log 2 \<bar>x\<bar>\<rfloor> + 1)"
    using floor_log_eq_powr_iff [of "\<bar>x\<bar>" 2 "\<lfloor>log 2 \<bar>x\<bar>\<rfloor>"] pos by simp
  moreover have "real_of_int \<lfloor>log 2 \<bar>x\<bar>\<rfloor> + 1 = real_of_int (\<lfloor>log 2 \<bar>x\<bar>\<rfloor> + 1)" by simp
  ultimately show ?thesis by (simp only: two_powr_int)
qed

lemma round_double_eval:
  assumes "2 powi e \<le> \<bar>x\<bar>" and "\<bar>x\<bar> < 2 powi (e + 1)" and "- 1022 \<le> e"
  shows "round_double x = of_int (round_half_even (x / 2 powi (e - 52))) * 2 powi (e - 52)"
proof -
  have "(0::real) < 2 powi e" by simp
  with assms(1) have "0 < \<bar>x\<bar>" by linarith
  then have "x \<noteq> 0" by auto
  moreover have "max (e - 52) (- 1074) = e - 52" using assms(3) by simp
  ultimately show ?thesis
    by (simp add: round_double_def floor_log2_eq [OF assms(1,2)] Let_def)
qed

lemma round_half_even_of_int: "round_half_even (of_int k) = k"
  by (simp add: round_half_even_def)

lemma round_half_even_bounds:
  "\<lfloor>x\<rfloor> \<le> round_half_even x \<and> round_half_even x \<le> \<lfloor>x\<rfloor> + 1"
  by (simp add: round_half_even_def Let_def)

lemma round_half_even_abs_le:
  assumes "\<bar>x\<bar> < of_int B"
  shows "\<bar>round_half_even x\<bar> \<le> B"
proof -
  from assms have "x < of_int B" and "of_int (- B) < x" by simp_all
  then have "\<lfloor>x\<rfloor> < B" and "- B \<le> \<lfloor>x\<rfloor>"
    by (simp_all add: floor_less_iff le_floor_iff)
  with round_half_even_bounds [of x] show ?thesis by linarith
qed

lemma two_powi_mono: "a \<le> b \<Longrightarrow> (2::real) powi a \<le> 2 powi b"
  by (rule power_int_increasing) simp_all

lemma two_powi_less_cancel: "(2::real) powi a < 2 powi b \<Longrightarrow> a < b"
  using two_powi_mono [of b a] by (cases "a < b") simp_all

lemma two_powi_add: "(2::real) powi (a + b) = 2 powi a * 2 powi b"
  by (simp add: power_int_add)

lemma scale_div:
  fixes a p c m :: real
  assumes "a = p * c" and "p \<noteq> 0"
  shows "m * a / p = m * c"
  using assms by simp

lemma scale_back:
  fixes a p c m :: real
  assumes "a = p * c"
  shows "m * c * p = m * a"
  using assms by simp

text \<open>A multiple of \<open>2 powi q\<close> with at most 53 bits is left alone by the rounding.\<close>

lemma round_double_multiple:
  assumes q: "- 1074 \<le> q" and n: "\<bar>n\<bar> \<le> 2 ^ 53"
  shows "round_double (of_int n * 2 powi q) = of_int n * 2 powi q"
proof (cases "n = 0")
  case True
  then show ?thesis by (simp add: round_double_def)
next
  case False
  let ?y = "real_of_int n * 2 powi q"
  let ?e = "\<lfloor>log 2 \<bar>?y\<bar>\<rfloor>"
  let ?q = "max (?e - 52) (- 1074)"
  from False have y0: "?y \<noteq> 0" by simp
  have absy: "\<bar>?y\<bar> = real_of_int \<bar>n\<bar> * 2 powi q"
    by (simp add: abs_mult)
  show ?thesis
  proof (cases "\<bar>n\<bar> = 2 ^ 53")
    case True
    then have "\<bar>?y\<bar> = 2 powi (53 + q)"
      by (simp add: absy two_powi_add)
    then have "?e = 53 + q"
      using floor_log2_eq [of "53 + q" ?y] two_powi_add [of "53 + q" 1] by simp
    with q have q': "?q = q + 1" by simp
    from True have "n = 2 * 2 ^ 52 \<or> n = 2 * (- (2 ^ 52))" by (cases "0 \<le> n") simp_all
    then obtain m where "n = 2 * m" by blast
    then have even: "n = 2 * (n div 2)" by simp
    have "?y / 2 powi (q + 1) = real_of_int n / 2"
      by (simp add: two_powi_add)
    also have "\<dots> = real_of_int (n div 2)"
      using even by (metis nonzero_mult_div_cancel_left of_int_mult of_int_numeral zero_neq_numeral)
    finally have "round_half_even (?y / 2 powi (q + 1)) = n div 2"
      by (simp only: round_half_even_of_int)
    then have "round_double ?y = real_of_int (n div 2) * 2 powi (q + 1)"
      using y0 q' by (simp add: round_double_def Let_def)
    also have "\<dots> = real_of_int (2 * (n div 2)) * 2 powi q"
      by (simp add: two_powi_add)
    finally show ?thesis using even by simp
  next
    case False
    with n have "\<bar>n\<bar> < 2 ^ 53" by simp
    then have "real_of_int \<bar>n\<bar> < 2 ^ 53"
      by (metis of_int_less_iff of_int_numeral of_int_power)
    then have "\<bar>?y\<bar> < 2 ^ 53 * 2 powi q"
      by (simp add: absy)
    also have "\<dots> = 2 powi (53 + q)" by (simp add: two_powi_add)
    finally have upper: "\<bar>?y\<bar> < 2 powi (53 + q)" .
    from floor_log2_bounds [OF y0] have "2 powi ?e \<le> \<bar>?y\<bar>" by simp
    with upper have "(2::real) powi ?e < 2 powi (53 + q)" by linarith
    then have "?e < 53 + q" by (rule two_powi_less_cancel)
    with q have le: "?q \<le> q" by simp
    define k where "k = nat (q - ?q)"
    with le have qk: "q = ?q + int k" by simp
    have scale: "2 powi q = (2::real) powi ?q * 2 ^ k"
      by (subst qk) (simp only: two_powi_add power_int_of_nat)
    have nk: "real_of_int (n * 2 ^ k) = real_of_int n * 2 ^ k" by simp
    have rd: "round_double ?y =
        real_of_int (round_half_even (?y / 2 powi ?q)) * 2 powi ?q"
      using y0 by (simp add: round_double_def Let_def)
    have "?y / 2 powi ?q = real_of_int (n * 2 ^ k)"
      unfolding nk by (rule scale_div [OF scale]) simp
    then have "round_double ?y = real_of_int (n * 2 ^ k) * 2 powi ?q"
      by (simp only: rd round_half_even_of_int)
    also have "\<dots> = ?y"
      unfolding nk by (rule scale_back [OF scale])
    finally show ?thesis .
  qed
qed

text \<open>The result of the rounding is a double: rounding it again changes nothing.\<close>

lemma round_double_idem: "round_double (round_double x) = round_double x"
proof (cases "x = 0")
  case True
  then show ?thesis by (simp add: round_double_def)
next
  case False
  let ?e = "\<lfloor>log 2 \<bar>x\<bar>\<rfloor>"
  let ?q = "max (?e - 52) (- 1074)"
  have q: "- 1074 \<le> ?q" by simp
  have "?e + 1 - ?q \<le> 53" by simp
  then have "(2::real) powi (?e + 1 - ?q) \<le> 2 powi 53" by (rule two_powi_mono)
  moreover have "\<bar>x\<bar> / 2 powi ?q < 2 powi (?e + 1) / 2 powi ?q"
    using floor_log2_bounds [OF False] by (simp add: divide_strict_right_mono)
  moreover have "(2::real) powi (?e + 1) / 2 powi ?q = 2 powi (?e + 1 - ?q)"
    by (simp add: power_int_diff)
  ultimately have "\<bar>x / 2 powi ?q\<bar> < real_of_int (2 ^ 53)"
    by (simp add: abs_divide)
  then have "\<bar>round_half_even (x / 2 powi ?q)\<bar> \<le> 2 ^ 53"
    by (rule round_half_even_abs_le)
  from round_double_multiple [OF q this] False show ?thesis
    by (simp add: round_double_def Let_def)
qed

lemma nearest_double_finite:
  assumes "\<bar>round_double r\<bar> < 2 ^ 1024"
  shows "nearest_double r = Finite (Abs_finite_double (round_double r))"
  using assms by (simp add: nearest_double_def Let_def abs_less_iff)

lemma finite_double_round:
  assumes "\<bar>round_double r\<bar> < 2 ^ 1024"
  shows "Rep_finite_double (Abs_finite_double (round_double r)) = round_double r"
  using assms by (intro Abs_finite_double_inverse) (simp add: round_double_idem)

lemma nearest_double_value: "nearest_double (Rep_finite_double d) = Finite d"
proof -
  have "round_double (Rep_finite_double d) = Rep_finite_double d"
    and "\<bar>Rep_finite_double d\<bar> < 2 ^ 1024"
    using Rep_finite_double [of d] by simp_all
  then show ?thesis
    by (simp add: nearest_double_def Rep_finite_double_inverse abs_less_iff)
qed

lemma float_add_nearest:
  assumes "\<bar>round_double a\<bar> < 2 ^ 1024" and "\<bar>round_double b\<bar> < 2 ^ 1024"
  shows "float_add (nearest_double a) (nearest_double b) =
           nearest_double (round_double a + round_double b)"
  using assms by (simp add: nearest_double_finite finite_double_round)

lemma nearest_double_eq_iff:
  assumes "\<bar>round_double a\<bar> < 2 ^ 1024" and "\<bar>round_double b\<bar> < 2 ^ 1024"
  shows "nearest_double a = nearest_double b \<longleftrightarrow> round_double a = round_double b"
proof -
  have "round_double a \<in> {r. round_double r = r \<and> \<bar>r\<bar> < 2 ^ 1024}"
    and "round_double b \<in> {r. round_double r = r \<and> \<bar>r\<bar> < 2 ^ 1024}"
    using assms by (simp_all add: round_double_idem)
  then show ?thesis
    using assms by (simp add: nearest_double_finite Abs_finite_double_inject)
qed

text \<open>Adding to the integer 0, where \<^verbatim>\<open>sum\<close> starts, gives the number added.\<close>

lemma py_add_zero: "py_add (PyInt 0) n = Inr n"
proof (cases n)
  case (PyInt i)
  then show ?thesis by simp
next
  case (PyFloat x)
  have zero: "int_to_float 0 = Inr (Finite (Abs_finite_double 0))"
    by (simp add: int_to_float_def nearest_double_def round_double_def)
  have "Rep_finite_double (Abs_finite_double 0) = 0"
    by (rule Abs_finite_double_inverse) (simp add: round_double_def)
  then show ?thesis
    by (cases x) (simp_all add: PyFloat zero nearest_double_value)
qed

lemma py_sum_single: "py_sum [n] = Inr n"
  by (simp add: py_sum_def py_add_zero)

lemma py_sum_two_floats: "py_sum [PyFloat x, PyFloat y] = Inr (PyFloat (float_add x y))"
proof -
  have "sum_from (PyInt 0) [PyFloat x, PyFloat y] = sum_from (PyFloat x) [PyFloat y]"
    by (simp only: sum_from.simps py_add_zero sum.case)
  then show ?thesis by (simp add: py_sum_def)
qed

text \<open>On integers the sum is exact.\<close>

lemma sum_from_ints:
  "list_all is_py_int ns \<Longrightarrow>
   sum_from (PyInt a) ns = Inr (PyInt (a + sum_list (map int_of ns)))"
proof (induction ns arbitrary: a)
  case Nil
  then show ?case by simp
next
  case (Cons n ns)
  then obtain i where "n = PyInt i" by (cases n) simp_all
  with Cons show ?case by (simp add: add.assoc)
qed

lemma py_sum_int_volumes:
  assumes "list_all (\<lambda>t. is_py_int (volume t)) trades"
  shows "py_sum (map volume (filter P trades)) =
           Inr (PyInt (sum_list (map (\<lambda>t. int_of (volume t)) (filter P trades))))"
proof -
  from assms have "list_all is_py_int (map volume (filter P trades))"
    by (induction trades) simp_all
  then show ?thesis
    by (simp add: py_sum_def sum_from_ints comp_def)
qed

text \<open>The doubles of the decimal literals used below, and the doubles of their sums.\<close>

lemma double_0_1: "round_double 0.1 = 3602879701896397 / 2 ^ 55"
  by (subst round_double_eval [where e = "- 4"]) (simp_all add: round_half_even_def)

lemma double_0_3: "round_double 0.3 = 5404319552844595 / 2 ^ 54"
  by (subst round_double_eval [where e = "- 2"]) (simp_all add: round_half_even_def)

lemma double_0_7: "round_double 0.7 = 3152519739159347 / 2 ^ 52"
  by (subst round_double_eval [where e = "- 1"]) (simp_all add: round_half_even_def)

lemma double_0_4: "round_double 0.4 = 3602879701896397 / 2 ^ 53"
  by (subst round_double_eval [where e = "- 2"]) (simp_all add: round_half_even_def)

lemma double_0_8_below: "round_double 0.7999999999999999 = 7205759403792793 / 2 ^ 53"
  by (subst round_double_eval [where e = "- 1"]) (simp_all add: round_half_even_def)

lemma double_1_1: "round_double 1.1 = 2476979795053773 / 2 ^ 51"
  by (subst round_double_eval [where e = 0]) (simp_all add: round_half_even_def)

lemma double_1_1_below: "round_double 1.0999999999999999 = 4953959590107545 / 2 ^ 52"
  by (subst round_double_eval [where e = 0]) (simp_all add: round_half_even_def)

lemma double_0_1_plus_0_3:
  "round_double (3602879701896397 / 2 ^ 55 + 5404319552844595 / 2 ^ 54) =
     3602879701896397 / 2 ^ 53"
  by (subst round_double_eval [where e = "- 2"]) (simp_all add: round_half_even_def)

lemma double_0_1_plus_0_7:
  "round_double (3602879701896397 / 2 ^ 55 + 3152519739159347 / 2 ^ 52) =
     7205759403792793 / 2 ^ 53"
  by (subst round_double_eval [where e = "- 1"]) (simp_all add: round_half_even_def)

lemma double_0_4_plus_0_7:
  "round_double (3602879701896397 / 2 ^ 53 + 3152519739159347 / 2 ^ 52) =
     2476979795053773 / 2 ^ 51"
  by (subst round_double_eval [where e = 0]) (simp_all add: round_half_even_def)

lemma double_0_8_below_plus_0_3:
  "round_double (7205759403792793 / 2 ^ 53 + 5404319552844595 / 2 ^ 54) =
     4953959590107545 / 2 ^ 52"
  by (subst round_double_eval [where e = 0]) (simp_all add: round_half_even_def)

lemma float_add_decimal:
  assumes "round_double a = a'" and "round_double b = b'"
    and "round_double (a' + b') = c'" and "round_double c = c'"
    and "\<bar>a'\<bar> < 2 ^ 1024" and "\<bar>b'\<bar> < 2 ^ 1024" and "\<bar>c'\<bar> < 2 ^ 1024"
  shows "float_add (nearest_double a) (nearest_double b) = nearest_double c"
proof -
  have "float_add (nearest_double a) (nearest_double b) = nearest_double (a' + b')"
    using assms by (simp add: float_add_nearest)
  also have "\<dots> = nearest_double c"
    using assms by (simp add: nearest_double_eq_iff)
  finally show ?thesis .
qed

lemma float_add_0_1_0_3:
  "float_add (nearest_double 0.1) (nearest_double 0.3) = nearest_double 0.4"
  by (rule float_add_decimal [OF double_0_1 double_0_3 double_0_1_plus_0_3 double_0_4])
    simp_all

lemma float_add_0_1_0_7:
  "float_add (nearest_double 0.1) (nearest_double 0.7) = nearest_double 0.7999999999999999"
  by (rule float_add_decimal [OF double_0_1 double_0_7 double_0_1_plus_0_7 double_0_8_below])
    simp_all

lemma float_add_0_4_0_7:
  "float_add (nearest_double 0.4) (nearest_double 0.7) = nearest_double 1.1"
  by (rule float_add_decimal [OF double_0_4 double_0_7 double_0_4_plus_0_7 double_1_1])
    simp_all

lemma float_add_0_8_below_0_3:
  "float_add (nearest_double 0.7999999999999999) (nearest_double 0.3) =
     nearest_double 1.0999999999999999"
  by (rule float_add_decimal
        [OF double_0_8_below double_0_3 double_0_8_below_plus_0_3 double_1_1_below])
    simp_all

lemma nearest_double_1_1_differ:
  "nearest_double 1.1 \<noteq> nearest_double 1.0999999999999999"
proof -
  have "\<bar>round_double 1.1\<bar> < 2 ^ 1024"
    and "\<bar>round_double 1.0999999999999999\<bar> < 2 ^ 1024"
    by (simp_all only: double_1_1 double_1_1_below) simp_all
  moreover have "round_double 1.1 \<noteq> round_double 1.0999999999999999"
    by (simp only: double_1_1 double_1_1_below) simp
  ultimately show ?thesis
    by (simp only: nearest_double_eq_iff) simp
qed

lemma foldl_vpin_step:
  "foldl (vpin_step vpins) bands idxs =
     bands @ map (\<lambda>i. (max 0 (int i - 1), min (int (length vpins) - 1) (int i + 1)))
               (filter (\<lambda>i. vpins ! i > 0.5) idxs)"
  by (induction idxs arbitrary: bands) (simp_all add: vpin_step_def)

text \<open>Once a previous label exists, every change of label adds one span and nothing else does.\<close>

lemma foldl_regime_step_count:
  "prev_regime s = Some a \<Longrightarrow>
   length (spans (foldl (regime_step len) s (enumerate k labels))) =
     length (spans s) + label_changes (a # labels)"
proof (induction labels arbitrary: s k a)
  case Nil
  then show ?case by simp
next
  case (Cons b labels)
  show ?case
  proof (cases "a = b")
    case True
    with Cons.prems have "regime_step len s (k, b) = s" by (simp add: regime_step_def)
    with Cons.IH [OF Cons.prems, of "Suc k"] True show ?thesis by simp
  next
    case False
    let ?s = "regime_step len s (k, b)"
    from False Cons.prems have prev: "prev_regime ?s = Some b"
      and count: "length (spans ?s) = Suc (length (spans s))"
      by (simp_all add: regime_step_def)
    from Cons.IH [OF prev, of "Suc k"] count False show ?thesis by simp
  qed
qed

lemma regime_spans_count: "length (regime_spans labels) = label_changes labels"
proof (cases labels)
  case Nil
  then show ?thesis by (simp add: regime_spans_def)
next
  case (Cons a rest)
  let ?s = "\<lparr>prev_regime = Some a, start_idx = 0, spans = []\<rparr>"
  have "regime_step (length labels) \<lparr>prev_regime = None, start_idx = 0, spans = []\<rparr> (0, a) = ?s"
    by (simp add: regime_step_def)
  with Cons foldl_regime_step_count [of ?s a "length labels" "Suc 0" rest]
  show ?thesis by (simp add: regime_spans_def)
qed

lemma regime_spans_single: "regime_spans [r] = []"
  by (simp add: regime_spans_def regime_step_def enumerate_eq_zip)

lemma pie_sizes: "0 < total_value cmp \<Longrightarrow> pie (sizes cmp) = Inr (sizes cmp)"
  by (simp add: pie_def total_value_def sizes_def)

lemma protection_wedges_eq:
  "protection_wedges cmp = Inr (if 0 < total_value cmp then Some (sizes cmp) else None)"
  by (simp add: protection_wedges_def pie_sizes)

lemma create_price_chart_single:
  assumes "priceData data = [p]"
    and "\<not> isl (timestamp_to_datetime (utcoffset w) (timestamp p))"
  shows "create_price_chart data out_dir w =
           Inr (w\<lparr>files := (files w)(path_join out_dir ''price_chart.png'' \<mapsto>
                     PngFile (PriceChart [] (price p))),
                  stdout := stdout w @ [Created ''price_chart.png'']\<rparr>)"
proof -
  from assms(2) obtain d where "timestamp_to_datetime (utcoffset w) (timestamp p) = Inr d"
    by (cases "timestamp_to_datetime (utcoffset w) (timestamp p)") simp_all
  with assms(1) show ?thesis
    by (simp add: create_price_chart_def regime_spans_single py_print_def savefig_def)
qed

lemma create_vpin_chart_single:
  assumes "vpinData data = [v]"
    and "\<not> isl (timestamp_to_datetime (utcoffset w) (vpin_timestamp v))"
  shows "create_vpin_chart data out_dir w =
           Inr (w\<lparr>files := (files w)(path_join out_dir ''vpin_chart.png'' \<mapsto>
                     PngFile (VpinChart (high_vpin_spans [vpin v]))),
                  stdout := stdout w @ [Created ''vpin_chart.png'']\<rparr>)"
proof -
  from assms(2) obtain d where "timestamp_to_datetime (utcoffset w) (vpin_timestamp v) = Inr d"
    by (cases "timestamp_to_datetime (utcoffset w) (vpin_timestamp v)") simp_all
  with assms(1) show ?thesis
    by (simp add: create_vpin_chart_def py_print_def savefig_def)
qed

lemma create_comparison_chart_ok:
  assumes "initialLPBalance (config data) \<noteq> 0"
  shows "create_comparison_chart data out_dir w =
       Inr (w\<lparr>files := (files w)(path_join out_dir ''comparison_chart.png'' \<mapsto>
                 PngFile (ComparisonChart (without_vals (withoutProtection data))
                   (with_vals (withProtection data))
                   [netPnL (withoutProtection data), netPnL (withProtection data)]
                   (improvement data)
                   (improvement data / initialLPBalance (config data) * 100))),
              stdout := stdout w @ [Created ''comparison_chart.png'']\<rparr>)"
  using assms
  by (simp add: improvement_pct_def create_comparison_chart_def py_print_def savefig_def Let_def)

lemma create_protection_value_pie_ok:
  "create_protection_value_pie data out_dir w =
     Inr (w\<lparr>files := (files w)(path_join out_dir ''protection_value_pie.png'' \<mapsto>
               PngFile (ProtectionValuePie
                 (if 0 < total_value (comparison data) then Some (sizes (comparison data))
                  else None)
                 (total_value (comparison data)))),
            stdout := stdout w @ [Created ''protection_value_pie.png'']\<rparr>)"
  by (simp add: create_protection_value_pie_def protection_wedges_eq py_print_def savefig_def
        Let_def)

lemma py_sum_Nil: "py_sum [] = Inr (PyInt 0)"
  by (simp add: py_sum_def)

lemma create_trade_distribution_chart_single:
  assumes "tradeData data = [t]" and "number_value (volume t) = Some vol" and "0 < vol"
  shows "create_trade_distribution_chart data out_dir w =
     Inr (w\<lparr>files := (files w)(path_join out_dir ''trade_distribution.png'' \<mapsto>
               PngFile (TradeDistribution (if isInformed t then [vol, 0] else [0, vol])
                          (if isBuy t then [vol, 0] else [0, vol]))),
            stdout := stdout w @ [Created ''trade_distribution.png'']\<rparr>)"
proof -
  have sizes: "float_sizes [volume t, PyInt 0] = Inr [vol, 0]"
    "float_sizes [PyInt 0, volume t] = Inr [0, vol]"
    using assms(2) by (simp_all add: float_sizes_def)
  have pies: "pie [vol, 0] = Inr [vol, 0]" "pie [0, vol] = Inr [0, vol]"
    using assms(3) by (simp_all add: pie_def)
  show ?thesis
    by (simp add: create_trade_distribution_chart_def assms(1) informed_vol_def
          retail_vol_def buy_vol_def sell_vol_def py_sum_single py_sum_Nil sizes pies
          py_print_def savefig_def Let_def)
qed

lemma makedirs_ok:
  assumes "files w path = None \<or> files w path = Some Directory"
  shows "makedirs path w = Inr (w\<lparr>files := (files w)(path \<mapsto> Directory)\<rparr>)"
proof (cases "files w path")
  case None
  then show ?thesis by (simp add: makedirs_def)
next
  case (Some n)
  with assms have existing: "files w path = Some Directory" by simp
  then have "(files w)(path \<mapsto> Directory) = files w" by (simp add: fun_upd_idem)
  with existing show ?thesis by (simp add: makedirs_def)
qed

lemma chart_paths_distinct:
  "distinct [out_dir,
             path_join out_dir ''price_chart.png'',
             path_join out_dir ''vpin_chart.png'',
             path_join out_dir ''comparison_chart.png'',
             path_join out_dir ''protection_value_pie.png'',
             path_join out_dir ''trade_distribution.png'']"
  by (simp add: path_join_def)

subsection \<open>Regime shading\<close>

text \<open>
  C1. The loop closes a run of equal labels only when the next label differs, and
  nothing closes the run that is open when the loop ends: the number of spans drawn is
  the number of label changes, not one more. Two samples with one label give no span at
  all, where one span over both samples is expected; three samples with one change of
  label give the single span of indices 0 to 1, and index 2 stays unshaded, where two
  spans are expected.
\<close>

theorem regime_spans_last_run_unshaded:
  "length (regime_spans labels) = label_changes labels
   \<and> regime_spans [''CORE_SESSION'', ''CORE_SESSION''] = []
   \<and> regime_spans [''PRE_MARKET'', ''PRE_MARKET'', ''CORE_SESSION''] =
       [\<lparr>span_from = 0, span_to = 1, span_color = ''#3498db'',
         span_label = Some ''PRE_MARKET''\<rparr>]"
proof -
  have one_label: "regime_spans [''CORE_SESSION'', ''CORE_SESSION''] = []"
    by (simp add: regime_spans_def regime_step_def enumerate_eq_zip upt_rec)
  have one_change: "regime_spans [''PRE_MARKET'', ''PRE_MARKET'', ''CORE_SESSION''] =
       [\<lparr>span_from = 0, span_to = 1, span_color = ''#3498db'',
         span_label = Some ''PRE_MARKET''\<rparr>]"
    by (simp add: regime_spans_def regime_step_def enumerate_eq_zip upt_rec
          regime_color_def regime_colors_def)
  from regime_spans_count [of labels] one_label one_change show ?thesis by blast
qed

subsection \<open>VPIN bands\<close>

text \<open>
  C2. The bands drawn are, in order, one for each index \<open>i\<close> with \<open>vpins[i] > 0.5\<close> and
  none for any other index; the band of \<open>i\<close> runs from index \<open>max(0, i-1)\<close> to index
  \<open>min(len-1, i+1)\<close>. For \<open>[0.1, 0.2, 0.6, 0.3, 0.8, 0.2]\<close> the indices above 0.5 are 2
  and 4 and the bands are 1..3 and 3..5.
\<close>

theorem high_vpin_spans_bands:
  "high_vpin_spans vpins =
     map (\<lambda>i. (max 0 (int i - 1), min (int (length vpins) - 1) (int i + 1)))
       (filter (\<lambda>i. vpins ! i > 0.5) [0..<length vpins])
   \<and> filter (\<lambda>i. [0.1, 0.2, 0.6, 0.3, 0.8, 0.2 :: real] ! i > 0.5) [0..<6] = [2, 4]
   \<and> high_vpin_spans [0.1, 0.2, 0.6, 0.3, 0.8, 0.2] = [(1, 3), (3, 5)]"
proof -
  have general: "high_vpin_spans vpins =
     map (\<lambda>i. (max 0 (int i - 1), min (int (length vpins) - 1) (int i + 1)))
       (filter (\<lambda>i. vpins ! i > 0.5) [0..<length vpins])"
    by (simp add: high_vpin_spans_def foldl_vpin_step)
  have indices: "filter (\<lambda>i. [0.1, 0.2, 0.6, 0.3, 0.8, 0.2 :: real] ! i > 0.5) [0..<6] = [2, 4]"
    by (simp add: upt_rec)
  have bands: "high_vpin_spans [0.1, 0.2, 0.6, 0.3, 0.8, 0.2] = [(1, 3), (3, 5)]"
    by (simp add: high_vpin_spans_def vpin_step_def upt_rec)
  from general indices bands show ?thesis by blast
qed

subsection \<open>Protection value clipping\<close>

text \<open>
  C3. The three pie sizes are the raw contributions floored at zero, so none is
  negative, and their sum is the sum of the positive contributions alone. Drawing the
  pie never raises: it is drawn exactly when that sum is positive. When the sum is
  zero, as it is when all three contributions are negative, no pie is drawn.
\<close>

theorem protection_value_clipping:
  "sizes cmp =
     [max 0 (feeImprovement cmp), max 0 (adverseSelectionReduction cmp),
      max 0 (gapProtectionValue cmp)]
   \<and> list_all (\<lambda>s. 0 \<le> s) (sizes cmp)
   \<and> total_value cmp = sum_list (sizes cmp)
   \<and> total_value cmp =
       sum_list (filter (\<lambda>v. 0 < v)
         [feeImprovement cmp, adverseSelectionReduction cmp, gapProtectionValue cmp])
   \<and> protection_wedges cmp = Inr (if 0 < total_value cmp then Some (sizes cmp) else None)
   \<and> (feeImprovement cmp < 0 \<and> adverseSelectionReduction cmp < 0 \<and> gapProtectionValue cmp < 0
        \<longrightarrow> total_value cmp = 0)
   \<and> (total_value cmp = 0 \<longrightarrow> protection_wedges cmp = Inr None)"
proof -
  have nonneg: "list_all (\<lambda>s. 0 \<le> s) (sizes cmp)"
    by (simp add: sizes_def)
  have positive_parts: "total_value cmp =
       sum_list (filter (\<lambda>v. 0 < v)
         [feeImprovement cmp, adverseSelectionReduction cmp, gapProtectionValue cmp])"
    by (simp add: total_value_def sizes_def max_def)
  have all_negative: "feeImprovement cmp < 0 \<and> adverseSelectionReduction cmp < 0
        \<and> gapProtectionValue cmp < 0 \<longrightarrow> total_value cmp = 0"
    by (simp add: total_value_def sizes_def max_def)
  have degenerate: "total_value cmp = 0 \<longrightarrow> protection_wedges cmp = Inr None"
    by (simp add: protection_wedges_eq)
  show ?thesis
    using nonneg positive_parts all_negative degenerate protection_wedges_eq [of cmp]
    by (simp add: sizes_def total_value_def)
qed

theorem protection_value_clipping_witness:
  "feeImprovement (comparison minimal_document) < 0
   \<and> adverseSelectionReduction (comparison minimal_document) < 0
   \<and> gapProtectionValue (comparison minimal_document) < 0
   \<and> sizes (comparison minimal_document) = [0, 0, 0]
   \<and> total_value (comparison minimal_document) = 0
   \<and> protection_wedges (comparison minimal_document) = Inr None"
  using protection_value_clipping [of "comparison minimal_document"]
  by (simp add: minimal_document_def)

subsection \<open>Volume splits\<close>

text \<open>
  C4, as claimed, fails. Take the three trades of volumes 0.1 (informed, buy), 0.3
  (informed, sell) and 0.7 (retail, buy). The four sums are the doubles 0.4, 0.7,
  0.7999999999999999 and 0.3: the informed and the retail volume add up to 1.1, the buy
  and the sell volume to 1.0999999999999999, also when the four doubles are added
  without rounding.
\<close>

theorem float_volume_splits_differ:
  "informed_vol float_trades = Inr (PyFloat (nearest_double 0.4))
   \<and> retail_vol float_trades = Inr (PyFloat (nearest_double 0.7))
   \<and> buy_vol float_trades = Inr (PyFloat (nearest_double 0.7999999999999999))
   \<and> sell_vol float_trades = Inr (PyFloat (nearest_double 0.3))
   \<and> add_results (informed_vol float_trades) (retail_vol float_trades) =
       Inr (PyFloat (nearest_double 1.1))
   \<and> add_results (buy_vol float_trades) (sell_vol float_trades) =
       Inr (PyFloat (nearest_double 1.0999999999999999))
   \<and> add_results (informed_vol float_trades) (retail_vol float_trades) \<noteq>
       add_results (buy_vol float_trades) (sell_vol float_trades)
   \<and> round_double 0.4 + round_double 0.7 \<noteq>
       round_double 0.7999999999999999 + round_double 0.3"
proof -
  have informed: "informed_vol float_trades = Inr (PyFloat (nearest_double 0.4))"
    by (simp add: informed_vol_def float_trades_def py_sum_two_floats float_add_0_1_0_3)
  have retail: "retail_vol float_trades = Inr (PyFloat (nearest_double 0.7))"
    by (simp add: retail_vol_def float_trades_def py_sum_single)
  have buy: "buy_vol float_trades = Inr (PyFloat (nearest_double 0.7999999999999999))"
    by (simp add: buy_vol_def float_trades_def py_sum_two_floats float_add_0_1_0_7)
  have sell: "sell_vol float_trades = Inr (PyFloat (nearest_double 0.3))"
    by (simp add: sell_vol_def float_trades_def py_sum_single)
  have by_type: "add_results (informed_vol float_trades) (retail_vol float_trades) =
       Inr (PyFloat (nearest_double 1.1))"
    by (simp only: informed retail add_results_def sum.case py_add.simps float_add_0_4_0_7)
  have by_direction: "add_results (buy_vol float_trades) (sell_vol float_trades) =
       Inr (PyFloat (nearest_double 1.0999999999999999))"
    by (simp only: buy sell add_results_def sum.case py_add.simps float_add_0_8_below_0_3)
  have differ: "add_results (informed_vol float_trades) (retail_vol float_trades) \<noteq>
       add_results (buy_vol float_trades) (sell_vol float_trades)"
    using nearest_double_1_1_differ by (simp only: by_type by_direction) simp
  have exact: "round_double 0.4 + round_double 0.7 \<noteq>
       round_double 0.7999999999999999 + round_double 0.3"
    by (simp only: double_0_4 double_0_7 double_0_8_below double_0_3) simp
  from informed retail buy sell by_type by_direction differ exact show ?thesis
    by blast
qed

text \<open>
  C4, amended. For every list of trades whose volumes are all integers, each of the four
  sums is the exact integer sum of its volumes; the informed and the retail volume add
  up to the same value as the buy and the sell volume, and that value is the sum of all
  volumes. For the empty list all four sums are the integer 0.
\<close>

theorem volume_split_cross_check:
  assumes "list_all (\<lambda>t. is_py_int (volume t)) trades"
  shows "informed_vol trades =
       Inr (PyInt (sum_list (map (\<lambda>t. int_of (volume t)) (filter (\<lambda>t. isInformed t) trades))))
   \<and> retail_vol trades =
       Inr (PyInt (sum_list (map (\<lambda>t. int_of (volume t)) (filter (\<lambda>t. \<not> isInformed t) trades))))
   \<and> buy_vol trades =
       Inr (PyInt (sum_list (map (\<lambda>t. int_of (volume t)) (filter (\<lambda>t. isBuy t) trades))))
   \<and> sell_vol trades =
       Inr (PyInt (sum_list (map (\<lambda>t. int_of (volume t)) (filter (\<lambda>t. \<not> isBuy t) trades))))
   \<and> add_results (informed_vol trades) (retail_vol trades) =
       add_results (buy_vol trades) (sell_vol trades)
   \<and> add_results (buy_vol trades) (sell_vol trades) = py_sum (map volume trades)
   \<and> py_sum (map volume trades) =
       Inr (PyInt (sum_list (map (\<lambda>t. int_of (volume t)) trades)))
   \<and> informed_vol [] = Inr (PyInt 0) \<and> retail_vol [] = Inr (PyInt 0)
   \<and> buy_vol [] = Inr (PyInt 0) \<and> sell_vol [] = Inr (PyInt 0)"
proof -
  note sums = py_sum_int_volumes [OF assms]
  have all: "py_sum (map volume trades) =
       Inr (PyInt (sum_list (map (\<lambda>t. int_of (volume t)) trades)))"
    using sums [of "\<lambda>t. True"] by simp
  have empty: "informed_vol [] = Inr (PyInt 0) \<and> retail_vol [] = Inr (PyInt 0)
       \<and> buy_vol [] = Inr (PyInt 0) \<and> sell_vol [] = Inr (PyInt 0)"
    by (simp add: informed_vol_def retail_vol_def buy_vol_def sell_vol_def py_sum_def)
  show ?thesis
    using empty
    by (simp add: informed_vol_def retail_vol_def buy_vol_def sell_vol_def sums all
          add_results_def sum_list_split)
qed

theorem volume_split_cross_check_witness:
  "list_all (\<lambda>t. is_py_int (volume t)) int_trades
   \<and> informed_vol int_trades = Inr (PyInt 25007)
   \<and> retail_vol int_trades = Inr (PyInt 100)
   \<and> buy_vol int_trades = Inr (PyInt 107)
   \<and> sell_vol int_trades = Inr (PyInt 25000)
   \<and> add_results (informed_vol int_trades) (retail_vol int_trades) = Inr (PyInt 25107)
   \<and> add_results (buy_vol int_trades) (sell_vol int_trades) = Inr (PyInt 25107)
   \<and> py_sum (map volume int_trades) = Inr (PyInt 25107)"
proof -
  have ints: "list_all (\<lambda>t. is_py_int (volume t)) int_trades"
    by (simp add: int_trades_def)
  show ?thesis
    using ints volume_split_cross_check [OF ints]
    by (simp add: int_trades_def add_results_def)
qed

subsection \<open>Net improvement\<close>

text \<open>
  C5. With a non-zero initial balance, the improvement is the net result with
  protection minus the net result without, its percentage is the improvement divided by
  the initial balance times 100, and these are the two values the comparison chart is
  annotated with. For net results of \<open>-1000\<close> and \<open>500\<close> and a balance of \<open>100000\<close>
  they are 1500 and 1.5.
\<close>

theorem net_improvement_formula:
  assumes "initialLPBalance (config data) \<noteq> 0"
  shows "improvement data = netPnL (withProtection data) - netPnL (withoutProtection data)
   \<and> improvement_pct data = Inr (improvement data / initialLPBalance (config data) * 100)
   \<and> create_comparison_chart data out_dir w =
       Inr (w\<lparr>files := (files w)(path_join out_dir ''comparison_chart.png'' \<mapsto>
                 PngFile (ComparisonChart (without_vals (withoutProtection data))
                   (with_vals (withProtection data))
                   [netPnL (withoutProtection data), netPnL (withProtection data)]
                   (netPnL (withProtection data) - netPnL (withoutProtection data))
                   ((netPnL (withProtection data) - netPnL (withoutProtection data))
                      / initialLPBalance (config data) * 100))),
              stdout := stdout w @ [Created ''comparison_chart.png'']\<rparr>)
   \<and> (netPnL (withoutProtection data) = - 1000 \<and> netPnL (withProtection data) = 500
        \<and> initialLPBalance (config data) = 100000
        \<longrightarrow> improvement data = 1500 \<and> improvement_pct data = Inr 1.5)"
  using assms create_comparison_chart_ok [OF assms, of out_dir w]
  by (simp add: improvement_def improvement_pct_def)

theorem net_improvement_formula_witness:
  "initialLPBalance (config minimal_document) \<noteq> 0
   \<and> netPnL (withoutProtection minimal_document) = - 1000
   \<and> netPnL (withProtection minimal_document) = 500
   \<and> initialLPBalance (config minimal_document) = 100000
   \<and> improvement minimal_document = 1500
   \<and> improvement_pct minimal_document = Inr 1.5"
proof -
  have balance: "initialLPBalance (config minimal_document) \<noteq> 0"
    by (simp add: minimal_document_def)
  show ?thesis
    using balance net_improvement_formula [OF balance]
    by (simp add: minimal_document_def)
qed

subsection \<open>Sign convention of the bar vectors\<close>

text \<open>
  C6. The without-protection vector is the fees, the three negated losses and 0; the
  with-protection vector is the fees, the three negated losses and the gap auction
  gains. The last entry of the without-protection vector is 0 whatever gap auction
  gains its record holds.
\<close>

theorem pnl_sign_convention:
  "without_vals without =
     [feesEarned without, - impermanentLoss without, - adverseSelectionLoss without,
      - gapLoss without, 0]
   \<and> with_vals with_prot =
     [feesEarned with_prot, - impermanentLoss with_prot, - adverseSelectionLoss with_prot,
      - gapLoss with_prot, gapAuctionGains with_prot]
   \<and> without_vals (without\<lparr>gapAuctionGains := g\<rparr>) = without_vals without
   \<and> without_vals (without\<lparr>gapAuctionGains := g\<rparr>) ! 4 = 0"
  by (simp add: without_vals_def with_vals_def)

subsection \<open>The missing input file\<close>

text \<open>
  C7, as claimed, fails: with no file at the data path the run prints two diagnostic
  lines, not one. The first names the path and the second the command to run.
\<close>

theorem missing_file_prints_two_lines:
  "filter is_diagnostic (printed (main ''/app'' empty_world)) =
     [DataFileNotFound ''/app/simulation_results/simulation_data.json'', RunSimulationFirst]
   \<and> length (filter is_diagnostic (printed (main ''/app'' empty_world))) \<noteq> 1"
  by (simp add: main_def printed_def empty_world_def path_exists_def py_print_def data_path_def
        path_join_def)

text \<open>
  C7, amended. When nothing exists at the data path, the run returns normally, leaves
  the file system as it was (no chart is written) and has printed four lines: the
  banner, the rule, the line naming the missing path and the line naming the command
  that runs the simulation.
\<close>

theorem main_missing_file:
  assumes "files w (data_path script_dir) = None"
  shows "main script_dir w =
           Inr (w\<lparr>stdout := stdout w @
                  [Banner, Rule, DataFileNotFound (data_path script_dir), RunSimulationFirst]\<rparr>)"
  using assms by (simp add: main_def path_exists_def py_print_def)

theorem main_missing_file_witness:
  "files empty_world (data_path ''/app'') = None
   \<and> main ''/app'' empty_world =
       Inr \<lparr>files = Map.empty,
            stdout = [Banner, Rule,
                      DataFileNotFound ''/app/simulation_results/simulation_data.json'',
                      RunSimulationFirst],
            utcoffset = 0\<rparr>"
proof -
  have missing: "files empty_world (data_path ''/app'') = None"
    by (simp add: empty_world_def)
  show ?thesis
    using missing main_missing_file [OF missing]
    by (simp add: empty_world_def data_path_def path_join_def)
qed

subsection \<open>A complete run\<close>

text \<open>
  C8. Let the data path hold a document with one price sample, one VPIN sample and one
  trade, whose two timestamps convert, whose initial balance is not zero and whose trade
  has a finite, positive volume \<open>vol\<close>, and let the output directory be absent or a
  directory. Then
  the run returns normally; it has created the output directory and written the five
  files \<open>price_chart.png\<close>, \<open>vpin_chart.png\<close>, \<open>comparison_chart.png\<close>,
  \<open>protection_value_pie.png\<close> and \<open>trade_distribution.png\<close> in it, at five different
  paths, and nothing else; and the lines it has printed hold exactly five created
  lines, one for each file.
\<close>

theorem main_end_to_end:
  assumes doc: "files w (data_path script_dir) = Some (JsonFile data)"
    and dir: "files w (output_dir script_dir) = None
              \<or> files w (output_dir script_dir) = Some Directory"
    and one_price: "priceData data = [p]"
    and one_vpin: "vpinData data = [v]"
    and one_trade: "tradeData data = [t]"
    and price_time: "\<not> isl (timestamp_to_datetime (utcoffset w) (timestamp p))"
    and vpin_time: "\<not> isl (timestamp_to_datetime (utcoffset w) (vpin_timestamp v))"
    and balance: "initialLPBalance (config data) \<noteq> 0"
    and traded: "number_value (volume t) = Some vol"
    and positive: "0 < vol"
  shows "main script_dir w =
     Inr (w\<lparr>files := (files w)
              (output_dir script_dir \<mapsto> Directory,
               path_join (output_dir script_dir) ''price_chart.png'' \<mapsto>
                 PngFile (PriceChart [] (price p)),
               path_join (output_dir script_dir) ''vpin_chart.png'' \<mapsto>
                 PngFile (VpinChart (high_vpin_spans [vpin v])),
               path_join (output_dir script_dir) ''comparison_chart.png'' \<mapsto>
                 PngFile (ComparisonChart (without_vals (withoutProtection data))
                   (with_vals (withProtection data))
                   [netPnL (withoutProtection data), netPnL (withProtection data)]
                   (improvement data)
                   (improvement data / initialLPBalance (config data) * 100)),
               path_join (output_dir script_dir) ''protection_value_pie.png'' \<mapsto>
                 PngFile (ProtectionValuePie
                   (if 0 < total_value (comparison data) then Some (sizes (comparison data))
                    else None)
                   (total_value (comparison data))),
               path_join (output_dir script_dir) ''trade_distribution.png'' \<mapsto>
                 PngFile (TradeDistribution (if isInformed t then [vol, 0] else [0, vol])
                            (if isBuy t then [vol, 0] else [0, vol]))),
            stdout := stdout w @
              [Banner, Rule, Loading (data_path script_dir),
               ConfigLine (simulationDays (config data)) (initialLPBalance (config data)),
               GeneratingCharts,
               Created ''price_chart.png'', Created ''vpin_chart.png'',
               Created ''comparison_chart.png'', Created ''protection_value_pie.png'',
               Created ''trade_distribution.png'',
               Rule, AllChartsSaved (output_dir script_dir), Rule]\<rparr>)
   \<and> filter is_created (drop (length (stdout w)) (printed (main script_dir w))) =
       [Created ''price_chart.png'', Created ''vpin_chart.png'',
        Created ''comparison_chart.png'', Created ''protection_value_pie.png'',
        Created ''trade_distribution.png'']
   \<and> distinct [output_dir script_dir,
                path_join (output_dir script_dir) ''price_chart.png'',
                path_join (output_dir script_dir) ''vpin_chart.png'',
                path_join (output_dir script_dir) ''comparison_chart.png'',
                path_join (output_dir script_dir) ''protection_value_pie.png'',
                path_join (output_dir script_dir) ''trade_distribution.png'']"
proof -
  have loaded: "load_data (data_path script_dir)
       (py_print (Loading (data_path script_dir)) (py_print Rule (py_print Banner w))) = Inr data"
    using doc by (simp add: load_data_def py_print_def)
  have found: "path_exists (py_print Rule (py_print Banner w)) (data_path script_dir)"
    using doc by (simp add: path_exists_def py_print_def)
  have run: "main script_dir w =
     Inr (w\<lparr>files := (files w)
              (output_dir script_dir \<mapsto> Directory,
               path_join (output_dir script_dir) ''price_chart.png'' \<mapsto>
                 PngFile (PriceChart [] (price p)),
               path_join (output_dir script_dir) ''vpin_chart.png'' \<mapsto>
                 PngFile (VpinChart (high_vpin_spans [vpin v])),
               path_join (output_dir script_dir) ''comparison_chart.png'' \<mapsto>
                 PngFile (ComparisonChart (without_vals (withoutProtection data))
                   (with_vals (withProtection data))
                   [netPnL (withoutProtection data), netPnL (withProtection data)]
                   (improvement data)
                   (improvement data / initialLPBalance (config data) * 100)),
               path_join (output_dir script_dir) ''protection_value_pie.png'' \<mapsto>
                 PngFile (ProtectionValuePie
                   (if 0 < total_value (comparison data) then Some (sizes (comparison data))
                    else None)
                   (total_value (comparison data))),
               path_join (output_dir script_dir) ''trade_distribution.png'' \<mapsto>
                 PngFile (TradeDistribution (if isInformed t then [vol, 0] else [0, vol])
                            (if isBuy t then [vol, 0] else [0, vol]))),
            stdout := stdout w @
              [Banner, Rule, Loading (data_path script_dir),
               ConfigLine (simulationDays (config data)) (initialLPBalance (config data)),
               GeneratingCharts,
               Created ''price_chart.png'', Created ''vpin_chart.png'',
               Created ''comparison_chart.png'', Created ''protection_value_pie.png'',
               Created ''trade_distribution.png'',
               Rule, AllChartsSaved (output_dir script_dir), Rule]\<rparr>)"
    unfolding main_def Let_def
    using found loaded
    by (simp add: makedirs_ok dir and_then_def
          create_price_chart_single [OF one_price] price_time
          create_vpin_chart_single [OF one_vpin] vpin_time
          create_comparison_chart_ok [OF balance]
          create_protection_value_pie_ok
          create_trade_distribution_chart_single [OF one_trade traded positive]
          py_print_def)
  have created: "filter is_created (drop (length (stdout w)) (printed (main script_dir w))) =
       [Created ''price_chart.png'', Created ''vpin_chart.png'',
        Created ''comparison_chart.png'', Created ''protection_value_pie.png'',
        Created ''trade_distribution.png'']"
    by (simp add: run printed_def)
  from run created chart_paths_distinct [of "output_dir script_dir"] show ?thesis
    by blast
qed

theorem main_end_to_end_witness:
  "files minimal_world (data_path ''/app'') = Some (JsonFile minimal_document)
   \<and> files minimal_world (output_dir ''/app'') = None
   \<and> priceData minimal_document =
         [\<lparr>timestamp = 1700000000000, price = 190, regime = ''CORE_SESSION''\<rparr>]
   \<and> vpinData minimal_document = [\<lparr>vpin_timestamp = 1700000000000, vpin = 0.6\<rparr>]
   \<and> tradeData minimal_document =
         [\<lparr>volume = PyInt 25000, isInformed = True, isBuy = False\<rparr>]
   \<and> number_value (PyInt 25000) = Some 25000
   \<and> timestamp_to_datetime (utcoffset minimal_world) 1700000000000 = Inr 1700000000
   \<and> initialLPBalance (config minimal_document) \<noteq> 0
   \<and> printed (main ''/app'' minimal_world) =
         [Banner, Rule, Loading ''/app/simulation_results/simulation_data.json'',
          ConfigLine 5 100000, GeneratingCharts,
          Created ''price_chart.png'', Created ''vpin_chart.png'',
          Created ''comparison_chart.png'', Created ''protection_value_pie.png'',
          Created ''trade_distribution.png'',
          Rule, AllChartsSaved ''/app/simulation_results/graphs'', Rule]"
proof -
  have doc: "files minimal_world (data_path ''/app'') = Some (JsonFile minimal_document)"
    by (simp add: minimal_world_def data_path_def path_join_def)
  have dir: "files minimal_world (output_dir ''/app'') = None"
    by (simp add: minimal_world_def output_dir_def path_join_def)
  have one_price: "priceData minimal_document =
         [\<lparr>timestamp = 1700000000000, price = 190, regime = ''CORE_SESSION''\<rparr>]"
    by (simp add: minimal_document_def)
  have one_vpin: "vpinData minimal_document = [\<lparr>vpin_timestamp = 1700000000000, vpin = 0.6\<rparr>]"
    by (simp add: minimal_document_def)
  have one_trade: "tradeData minimal_document =
         [\<lparr>volume = PyInt 25000, isInformed = True, isBuy = False\<rparr>]"
    by (simp add: minimal_document_def)
  have traded: "number_value (volume \<lparr>volume = PyInt 25000, isInformed = True, isBuy = False\<rparr>)
         = Some 25000"
    by simp
  have positive: "(0::real) < 25000" by simp
  have time: "timestamp_to_datetime (utcoffset minimal_world) 1700000000000 = Inr 1700000000"
    by (simp add: timestamp_to_datetime_def fromtimestamp_def datetime_min_seconds_def
          datetime_max_seconds_def minimal_world_def)
  have balance: "initialLPBalance (config minimal_document) \<noteq> 0"
    by (simp add: minimal_document_def)
  have run: "printed (main ''/app'' minimal_world) =
         [Banner, Rule, Loading ''/app/simulation_results/simulation_data.json'',
          ConfigLine 5 100000, GeneratingCharts,
          Created ''price_chart.png'', Created ''vpin_chart.png'',
          Created ''comparison_chart.png'', Created ''protection_value_pie.png'',
          Created ''trade_distribution.png'',
          Rule, AllChartsSaved ''/app/simulation_results/graphs'', Rule]"
    using main_end_to_end
            [OF doc disjI1 [OF dir] one_price one_vpin one_trade _ _ balance traded positive]
    using time
    by (simp add: printed_def minimal_world_def minimal_document_def data_path_def
          output_dir_def path_join_def)
  from doc dir one_price one_vpin one_trade traded time balance run show ?thesis by simp
qed

subsection \<open>Totality of the time normalizer\<close>

text \<open>
  C9, as claimed, fails: the timestamp of \<open>1000000000000000\<close> milliseconds is a non-negative integer,
  and its conversion raises, as the instant lies tens of thousands of years after year
  9999.
\<close>

theorem timestamp_to_datetime_fails_beyond_year_9999:
  "timestamp_to_datetime 0 1000000000000000 = Inl DatetimeRangeError"
  by (simp add: timestamp_to_datetime_def fromtimestamp_def datetime_max_seconds_def
        datetime_min_seconds_def)

text \<open>
  C9, amended. The conversion is a function of the timestamp and of the offset of local
  time. For a non-negative integer millisecond timestamp and an offset of at most one
  day either way, it returns the local time \<open>ts / 1000 + offset\<close> when that lies before
  year 10000, and raises otherwise; so it returns for every timestamp from 0 up to
  253402214400000 milliseconds, excluded.
\<close>

theorem timestamp_to_datetime_in_range:
  assumes "0 \<le> ts" and "- 86400 \<le> tz" and "tz \<le> 86400"
  shows "timestamp_to_datetime tz ts =
           (if real_of_int ts / 1000 + real_of_int tz < 253402300800
            then Inr (real_of_int ts / 1000 + real_of_int tz)
            else Inl DatetimeRangeError)
   \<and> (ts < 253402214400000 \<longrightarrow>
        timestamp_to_datetime tz ts = Inr (real_of_int ts / 1000 + real_of_int tz))"
proof -
  have lower: "- 62135596800 \<le> real_of_int ts / 1000 + real_of_int tz"
    using assms by simp
  then have general: "timestamp_to_datetime tz ts =
           (if real_of_int ts / 1000 + real_of_int tz < 253402300800
            then Inr (real_of_int ts / 1000 + real_of_int tz)
            else Inl DatetimeRangeError)"
    by (simp add: timestamp_to_datetime_def fromtimestamp_def datetime_max_seconds_def
        datetime_min_seconds_def)
  have "real_of_int ts / 1000 + real_of_int tz < 253402300800" if "ts < 253402214400000"
    using that assms by simp
  with general show ?thesis by simp
qed

theorem timestamp_to_datetime_in_range_witness:
  "(0::int) \<le> 1700000000000 \<and> - 86400 \<le> (3600::int) \<and> (3600::int) \<le> 86400
   \<and> (1700000000000::int) < 253402214400000
   \<and> timestamp_to_datetime 3600 1700000000000 = Inr 1700003600"
  using timestamp_to_datetime_in_range [of 1700000000000 3600]
  by simp

subsection \<open>The protection value pie is always written\<close>

text \<open>
  C10. Every run of the protection value renderer returns normally, writes the one file
  \<open>protection_value_pie.png\<close> in the output directory and prints its created line. When
  the clipped total is zero the file is written all the same: the chart has no wedges
  and its title shows a total of 0.
\<close>

theorem protection_value_pie_always_written:
  "create_protection_value_pie data out_dir w =
     Inr (w\<lparr>files := (files w)(path_join out_dir ''protection_value_pie.png'' \<mapsto>
               PngFile (ProtectionValuePie
                 (if 0 < total_value (comparison data) then Some (sizes (comparison data))
                  else None)
                 (total_value (comparison data)))),
            stdout := stdout w @ [Created ''protection_value_pie.png'']\<rparr>)
   \<and> (total_value (comparison data) = 0 \<longrightarrow>
        create_protection_value_pie data out_dir w =
          Inr (w\<lparr>files := (files w)(path_join out_dir ''protection_value_pie.png'' \<mapsto>
                    PngFile (ProtectionValuePie None 0)),
                 stdout := stdout w @ [Created ''protection_value_pie.png'']\<rparr>))"
  by (simp add: create_protection_value_pie_ok)

theorem protection_value_pie_always_written_witness:
  "total_value (comparison minimal_document) = 0
   \<and> create_protection_value_pie minimal_document ''/app/simulation_results/graphs'' empty_world =
       Inr \<lparr>files = [''/app/simulation_results/graphs/protection_value_pie.png'' \<mapsto>
                      PngFile (ProtectionValuePie None 0)],
            stdout = [Created ''protection_value_pie.png''],
            utcoffset = 0\<rparr>"
  using protection_value_pie_always_written
          [of minimal_document "''/app/simulation_results/graphs''" empty_world]
  by (simp add: minimal_document_def empty_world_def total_value_def sizes_def path_join_def)

end
